theory Spec2Isabelle
  imports Main "HOL-Library.Multiset"
begin

section \<open>The outside world\<close>

text \<open>
  The program talks to two services: the Datamuse HTTP API (through axios) and a
  PostgreSQL table \<open>dictionary\<close> (through a connection pool). Both can fail at any
  call. The model makes them explicit: a \<open>world\<close> holds the table and a counter of the
  external calls made so far, and an \<open>env\<close> says, for the call with a given number,
  what the service answers or whether the call raises. Console output is not modelled.
\<close>

text \<open>
  What is thrown: an \<open>Error\<close> object with a \<open>message\<close>. axios and pg reject with one,
  and the runtime raises a \<open>TypeError\<close>.
\<close>

datatype js_error = Error string | TypeError string

fun message :: "js_error \<Rightarrow> string" where
  "message (Error m) = m"
| "message (TypeError m) = m"

text \<open>
  One element of a candidate's \<open>tags\<close> array. The code calls \<open>tag.startsWith\<close> on it,
  which exists on strings only; anything else in the array is \<open>TagOther\<close>.
\<close>

datatype tag = TagStr string | TagOther

text \<open>
  One candidate entry of the service's answer (\<open>wordData\<close> in the code). Only the two
  properties the code reads are kept; each may be missing, and an element that is not an
  object (a number, a string) has neither. The score is the integer the API documents.
\<close>

record wordData =
  data_score :: "int option"
  data_tags :: "tag list option"

text \<open>
  What \<open>axios.get\<close> does: the promise rejects (transport failure, timeout), or it
  resolves to a response. Its \<open>data\<close> is the parsed JSON body, an array of candidates, or
  nothing that has a positive \<open>length\<close> (\<open>None\<close>: no body, \<open>null\<close>, a number, a
  boolean, an object); or it is a string (\<open>TextResponse\<close>), which is what axios hands over
  when the body is not JSON, an error page sent with status 200 for example.
\<close>

datatype response =
  Rejected js_error | Response "wordData list option" | TextResponse string

text \<open>
  The object \<open>fetchWordFrequency\<close> returns. \<open>None\<close> in \<open>frequency\<close> and \<open>score\<close> is
  JavaScript's \<open>null\<close>; \<open>None\<close> in \<open>error\<close> is a property that is not there.
\<close>

record freq_result =
  frequency :: "string option"
  score :: "int option"
  fetched_at :: string
  error :: "string option"

text \<open>
  A row of \<open>dictionary\<close>. The column \<open>info\<close> holds \<open>JSON.stringify\<close> of a result, or
  SQL NULL (\<open>None\<close>); the model keeps the result itself.
\<close>

record row =
  word :: string
  language :: string
  source :: string
  info :: "freq_result option"
  created_at :: nat

record world =
  store :: "row list"
  tick :: nat
  waited :: nat

record env =
  http :: "nat \<Rightarrow> string \<Rightarrow> response"
  db_fault :: "nat \<Rightarrow> js_error option"
  clock :: "nat \<Rightarrow> string"

definition called :: "world \<Rightarrow> world" where
  "called w = w\<lparr>tick := Suc (tick w)\<rparr>"

definition sleep :: "nat \<Rightarrow> world \<Rightarrow> world" where
  "sleep ms w = w\<lparr>waited := waited w + ms\<rparr>"

section \<open>DatamuseService.js\<close>

definition startsWith :: "string \<Rightarrow> string \<Rightarrow> bool" where
  "startsWith s p = (take (length p) s = p)"

text \<open>
  \<open>wordData.tags.find(tag => tag.startsWith('f:'))\<close>: the first tag with the prefix,
  \<open>undefined\<close> (\<open>None\<close>) when there is none; the callback raises a TypeError on a tag
  that is not a string, when the search reaches it.
\<close>

fun find_f_tag :: "tag list \<Rightarrow> js_error + string option" where
  "find_f_tag [] = Inr None"
| "find_f_tag (TagStr s # ts) = (if startsWith s ''f:'' then Inr (Some s) else find_f_tag ts)"
| "find_f_tag (TagOther # ts) = Inl (TypeError ''tag.startsWith is not a function'')"

text \<open>\<open>wordData.score || null\<close>: a missing score and the score 0 are both falsy.\<close>

definition score_or_null :: "int option \<Rightarrow> int option" where
  "score_or_null s = (case s of None \<Rightarrow> None | Some n \<Rightarrow> if n = 0 then None else Some n)"

text \<open>
  The body of the \<open>try\<close> block of \<open>fetchWordFrequency\<close>, for the request with number
  \<open>tick w\<close>; \<open>now\<close> is what \<open>new Date().toISOString()\<close> gives. The test is
  \<open>data && data.length > 0\<close>, which a string passes when it is not empty; \<open>data[0]\<close> is
  then its first character, a string, whose \<open>tags\<close> and \<open>score\<close> are \<open>undefined\<close>: the
  result has \<open>frequency: null\<close>, \<open>score: null\<close> and no error.
\<close>

definition fetch_try :: "env \<Rightarrow> string \<Rightarrow> world \<Rightarrow> string \<Rightarrow> js_error + freq_result" where
  "fetch_try e wd w now =
     (case http e (tick w) wd of
        Rejected err \<Rightarrow> Inl err
      | Response data \<Rightarrow>
          (case data of
             Some (wordData # rest) \<Rightarrow>
               (case (case data_tags wordData of
                        Some ts \<Rightarrow> find_f_tag ts
                      | None \<Rightarrow> Inr None) of
                  Inl err \<Rightarrow> Inl err
                | Inr f \<Rightarrow>
                    Inr \<lparr>frequency = (case f of Some s \<Rightarrow> Some (drop 2 s) | None \<Rightarrow> None),
                         score = score_or_null (data_score wordData),
                         fetched_at = now,
                         error = None\<rparr>)
           | _ \<Rightarrow>
               Inr \<lparr>frequency = None, score = None, fetched_at = now,
                    error = Some ''Word not found in Datamuse database''\<rparr>)
      | TextResponse body \<Rightarrow>
          if body \<noteq> [] then
            Inr \<lparr>frequency = None, score = None, fetched_at = now, error = None\<rparr>
          else
            Inr \<lparr>frequency = None, score = None, fetched_at = now,
                 error = Some ''Word not found in Datamuse database''\<rparr>)"

text \<open>The whole function: the \<open>catch\<close> turns whatever the body raised into a result.\<close>

definition fetchWordFrequency :: "env \<Rightarrow> string \<Rightarrow> world \<Rightarrow> (js_error + freq_result) \<times> world" where
  "fetchWordFrequency e wd w =
     (case fetch_try e wd w (clock e (tick (called w))) of
        Inr r \<Rightarrow> Inr r
      | Inl err \<Rightarrow>
          Inr \<lparr>frequency = None, score = None, fetched_at = clock e (tick (called w)),
               error = Some (message err)\<rparr>,
      called w)"

section \<open>datamuseProcessor.js\<close>

subsection \<open>The two SQL statements\<close>

text \<open>The WHERE clause of the SELECT.\<close>

definition needs_info :: "row \<Rightarrow> bool" where
  "needs_info r = (language r = ''english'' \<and> source r = ''wiktionary'' \<and> info r = None)"

text \<open>
  WHERE, ORDER BY \<open>created_at\<close> ASC, LIMIT. SQL leaves the order of rows with equal
  \<open>created_at\<close> open; the model keeps them in table order. The limit is a natural
  number: PostgreSQL rejects a negative one.
\<close>

definition select_rows :: "nat \<Rightarrow> row list \<Rightarrow> row list" where
  "select_rows limit rs = take limit (sort_key created_at (filter needs_info rs))"

text \<open>
  \<open>queryWordsNeedingInfo\<close>: the rows carry the column \<open>word\<close> only. A failure of
  \<open>pool.query\<close> is logged and thrown again.
\<close>

definition queryWordsNeedingInfo :: "env \<Rightarrow> nat \<Rightarrow> world \<Rightarrow> (js_error + string list) \<times> world" where
  "queryWordsNeedingInfo e limit w =
     (case db_fault e (tick w) of
        Some err \<Rightarrow> (Inl err, called w)
      | None \<Rightarrow> (Inr (map word (select_rows limit (store w))), called w))"

text \<open>The WHERE clause of the UPDATE.\<close>

definition is_row_of :: "string \<Rightarrow> row \<Rightarrow> bool" where
  "is_row_of wd r = (word r = wd \<and> language r = ''english'' \<and> source r = ''wiktionary'')"

definition set_info :: "string \<Rightarrow> freq_result \<Rightarrow> row list \<Rightarrow> row list" where
  "set_info wd i rs = map (\<lambda>r. if is_row_of wd r then r\<lparr>info := Some i\<rparr> else r) rs"

text \<open>
  \<open>updateWordInfo\<close>: \<open>result.rowCount > 0\<close>, or the failure of \<open>pool.query\<close> thrown
  again.
\<close>

definition updateWordInfo :: "env \<Rightarrow> string \<Rightarrow> freq_result \<Rightarrow> world \<Rightarrow> (js_error + bool) \<times> world" where
  "updateWordInfo e wd i w =
     (case db_fault e (tick w) of
        Some err \<Rightarrow> (Inl err, called w)
      | None \<Rightarrow>
          (Inr (length (filter (is_row_of wd) (store w)) > 0),
           called (w\<lparr>store := set_info wd i (store w)\<rparr>)))"

subsection \<open>One batch\<close>

record tally =
  processedCount :: nat
  successCount :: nat
  errorCount :: nat

definition count_error :: "tally \<Rightarrow> tally" where
  "count_error t = t\<lparr>errorCount := errorCount t + 1\<rparr>"

definition count_success :: "tally \<Rightarrow> tally" where
  "count_success t = t\<lparr>successCount := successCount t + 1\<rparr>"

definition count_processed :: "tally \<Rightarrow> tally" where
  "count_processed t = t\<lparr>processedCount := processedCount t + 1\<rparr>"

text \<open>
  What the end of the \<open>try\<close> block does to the counters once the UPDATE has returned:
  \<open>successCount++\<close> or \<open>errorCount++\<close>, then \<open>processedCount++\<close>.
\<close>

definition count_update :: "bool \<Rightarrow> tally \<Rightarrow> tally" where
  "count_update updateSuccess t =
     count_processed (if updateSuccess then count_success t else count_error t)"

text \<open>The delay between two requests: none after the last word (\<open>n\<close> is \<open>words.length\<close>).\<close>

definition rate_limit :: "nat \<Rightarrow> nat \<Rightarrow> tally \<Rightarrow> world \<Rightarrow> world" where
  "rate_limit delayMs n t w = (if processedCount t < n then sleep delayMs w else w)"

text \<open>
  The \<open>for\<close> loop of \<open>processWords\<close> over the selected words; \<open>n\<close> is \<open>words.length\<close>.
  The loop body is a \<open>try\<close> block: anything raised in it lands in the \<open>catch\<close>, which
  adds one to \<open>errorCount\<close> and goes on with the next word.
\<close>

fun process_each :: "env \<Rightarrow> nat \<Rightarrow> nat \<Rightarrow> string list \<Rightarrow> tally \<Rightarrow> world \<Rightarrow> tally \<times> world" where
  "process_each e delayMs n [] t w = (t, w)"
| "process_each e delayMs n (wd # rest) t w =
     (case fetchWordFrequency e wd w of
        (Inl err, w1) \<Rightarrow> process_each e delayMs n rest (count_error t) w1
      | (Inr frequencyInfo, w1) \<Rightarrow>
          (case updateWordInfo e wd frequencyInfo w1 of
             (Inl err, w2) \<Rightarrow> process_each e delayMs n rest (count_error t) w2
           | (Inr updateSuccess, w2) \<Rightarrow>
               process_each e delayMs n rest (count_update updateSuccess t)
                 (rate_limit delayMs n (count_update updateSuccess t) w2)))"

text \<open>
  \<open>processWords\<close>. With no word selected the function runs \<open>return;\<close>, so its value
  is \<open>undefined\<close>: that is \<open>None\<close> here, and a tally is \<open>Some\<close>.
\<close>

definition processWords :: "env \<Rightarrow> nat \<Rightarrow> nat \<Rightarrow> world \<Rightarrow> (js_error + tally option) \<times> world" where
  "processWords e batchSize delayMs w =
     (case queryWordsNeedingInfo e batchSize w of
        (Inl err, w1) \<Rightarrow> (Inl err, w1)
      | (Inr words, w1) \<Rightarrow>
          if length words = 0 then (Inr None, w1)
          else (case process_each e delayMs (length words) words
                       \<lparr>processedCount = 0, successCount = 0, errorCount = 0\<rparr> w1 of
                  (t, w2) \<Rightarrow> (Inr (Some t), w2)))"

subsection \<open>All batches\<close>

record totals =
  totalProcessed :: nat
  totalSuccess :: nat
  totalErrors :: nat
  batchNumber :: nat

text \<open>The \<open>catch\<close> of the loop: \<open>totalErrors++\<close>.\<close>

definition count_failed_batch :: "totals \<Rightarrow> totals" where
  "count_failed_batch tot = tot\<lparr>totalErrors := totalErrors tot + 1\<rparr>"

text \<open>The sums after a batch, and \<open>batchNumber++\<close>.\<close>

definition add_batch :: "tally \<Rightarrow> totals \<Rightarrow> totals" where
  "add_batch result tot =
     tot\<lparr>totalProcessed := totalProcessed tot + processedCount result,
         totalSuccess := totalSuccess tot + successCount result,
         totalErrors := totalErrors tot + errorCount result,
         batchNumber := batchNumber tot + 1\<rparr>"

text \<open>
  The \<open>while (true)\<close> loop of \<open>processAllWords\<close>, with fuel: one unit per turn of the
  loop, and \<open>None\<close> when the fuel runs out before a \<open>break\<close>. Reading
  \<open>result.processedCount\<close> of \<open>undefined\<close> raises a TypeError inside the \<open>try\<close>, so it
  takes the same \<open>catch\<close> as a failure of \<open>processWords\<close>.
\<close>

fun run_batches :: "nat \<Rightarrow> env \<Rightarrow> nat \<Rightarrow> nat \<Rightarrow> nat \<Rightarrow> totals \<Rightarrow> world \<Rightarrow> (totals \<times> world) option" where
  "run_batches 0 e batchSize delayMs batchDelayMs tot w = None"
| "run_batches (Suc fuel) e batchSize delayMs batchDelayMs tot w =
     (case processWords e batchSize delayMs w of
        (Inl err, w1) \<Rightarrow>
          run_batches fuel e batchSize delayMs batchDelayMs
            (count_failed_batch tot) (sleep batchDelayMs w1)
      | (Inr None, w1) \<Rightarrow>
          run_batches fuel e batchSize delayMs batchDelayMs
            (count_failed_batch tot) (sleep batchDelayMs w1)
      | (Inr (Some result), w1) \<Rightarrow>
          if processedCount result = 0 then Some (tot, w1)
          else if processedCount result < batchSize then Some (add_batch result tot, w1)
          else run_batches fuel e batchSize delayMs batchDelayMs
                 (add_batch result tot) (sleep batchDelayMs w1))"

definition processAllWords :: "nat \<Rightarrow> env \<Rightarrow> nat \<Rightarrow> nat \<Rightarrow> nat \<Rightarrow> world \<Rightarrow> (totals \<times> world) option" where
  "processAllWords fuel e batchSize delayMs batchDelayMs w =
     run_batches fuel e batchSize delayMs batchDelayMs
       \<lparr>totalProcessed = 0, totalSuccess = 0, totalErrors = 0, batchNumber = 1\<rparr> w"

section \<open>Example inputs\<close>

text \<open>
  A service that knows no word and never fails, a database that never fails, and a clock
  that stands still.
\<close>

definition quiet_env :: env where
  "quiet_env = \<lparr>http = (\<lambda>n wd. Response (Some [])), db_fault = (\<lambda>n. None),
                 clock = (\<lambda>n. ''2024-05-01T10:00:00.000Z'')\<rparr>"

text \<open>The same, but every request times out.\<close>

definition timeout_env :: env where
  "timeout_env = quiet_env\<lparr>http := (\<lambda>n wd. Rejected (Error ''timeout of 10000ms exceeded''))\<rparr>"

text \<open>The service answers with one candidate that has a frequency tag and the score 0.\<close>

definition zero_score_env :: env where
  "zero_score_env =
     quiet_env\<lparr>http := (\<lambda>n wd. Response (Some [\<lparr>data_score = Some 0,
                                                   data_tags = Some [TagStr ''n'', TagStr ''f:12.5'']\<rparr>]))\<rparr>"




text \<open>
  The database fails at the call with number 6. In a batch that starts at call 0 that
  is the UPDATE of the third word: call 0 is the SELECT, and each word takes one request
  and one UPDATE.
\<close>

definition flaky_env :: env where
  "flaky_env = quiet_env\<lparr>db_fault := (\<lambda>n. if n = 6 then Some (Error ''Connection terminated'') else None)\<rparr>"

definition pending_row :: "string \<Rightarrow> nat \<Rightarrow> row" where
  "pending_row wd c = \<lparr>word = wd, language = ''english'', source = ''wiktionary'',
                        info = None, created_at = c\<rparr>"

definition empty_world :: world where
  "empty_world = \<lparr>store = [], tick = 0, waited = 0\<rparr>"

definition one_word :: world where
  "one_word = \<lparr>store = [pending_row ''cat'' 1], tick = 0, waited = 0\<rparr>"

definition five_words :: world where
  "five_words = \<lparr>store = [pending_row ''a'' 1, pending_row ''b'' 2, pending_row ''c'' 3,
                           pending_row ''d'' 4, pending_row ''e'' 5],
                  tick = 0, waited = 0\<rparr>"

text \<open>
  A table with rows that must not be selected (another language, another source, info
  already there) and pending rows out of creation order.
\<close>

definition mixed_world :: world where
  "mixed_world =
     \<lparr>store = [pending_row ''new'' 30,
               (pending_row ''chat'' 2)\<lparr>language := ''french''\<rparr>,
               pending_row ''old'' 10,
               (pending_row ''done'' 1)\<lparr>info := Some \<lparr>frequency = Some ''3.1'', score = Some 7,
                                                     fetched_at = ''2024-04-30T09:00:00.000Z'',
                                                     error = None\<rparr>\<rparr>,
               (pending_row ''net'' 3)\<lparr>source := ''wordnet''\<rparr>,
               pending_row ''mid'' 20],
      tick = 0, waited = 0\<rparr>"

section \<open>The lookup: \<open>fetchWordFrequency\<close>\<close>

text \<open>
  A tag that \<open>find\<close> returns starts with \<open>f:\<close>, so it is not the empty string and
  the test \<open>frequency ? ... : null\<close> takes its first branch exactly when a tag was
  found; \<open>fetch_try\<close> is written that way.
\<close>

lemma find_f_tag_prefix: "find_f_tag ts = Inr (Some s) \<Longrightarrow> startsWith s ''f:'' \<and> s \<noteq> []"
  by (induction ts rule: find_f_tag.induct) (auto simp: startsWith_def split: if_splits)

text \<open>
  C4. For every word, every state of the world and every behaviour of the service,
  \<open>fetchWordFrequency\<close> returns a result and raises nothing. Whatever the \<open>try\<close> block
  raises (a rejected request, or a TypeError on a tag that is not a string) comes back
  as a result with \<open>frequency = null\<close>, \<open>score = null\<close> and the failure's message in
  \<open>error\<close>; a transport failure or timeout is the case of a rejected request.
\<close>

theorem fetchWordFrequency_never_raises:
  "(\<exists>r. fetchWordFrequency e wd w = (Inr r, called w)) \<and>
   (\<forall>err. fetch_try e wd w (clock e (tick (called w))) = Inl err \<longrightarrow>
      fst (fetchWordFrequency e wd w) =
        Inr \<lparr>frequency = None, score = None, fetched_at = clock e (tick (called w)),
             error = Some (message err)\<rparr>) \<and>
   (\<forall>err. http e (tick w) wd = Rejected err \<longrightarrow>
      fst (fetchWordFrequency e wd w) =
        Inr \<lparr>frequency = None, score = None, fetched_at = clock e (tick (called w)),
             error = Some (message err)\<rparr>)"
proof (intro conjI allI impI)
  show "\<exists>r. fetchWordFrequency e wd w = (Inr r, called w)"
    by (cases "fetch_try e wd w (clock e (tick (called w)))")
       (simp_all add: fetchWordFrequency_def)
next
  fix err
  assume "fetch_try e wd w (clock e (tick (called w))) = Inl err"
  then show "fst (fetchWordFrequency e wd w) =
        Inr \<lparr>frequency = None, score = None, fetched_at = clock e (tick (called w)),
             error = Some (message err)\<rparr>"
    by (simp add: fetchWordFrequency_def)
next
  fix err
  assume "http e (tick w) wd = Rejected err"
  then have "fetch_try e wd w (clock e (tick (called w))) = Inl err"
    by (simp add: fetch_try_def)
  then show "fst (fetchWordFrequency e wd w) =
        Inr \<lparr>frequency = None, score = None, fetched_at = clock e (tick (called w)),
             error = Some (message err)\<rparr>"
    by (simp add: fetchWordFrequency_def)
qed

theorem fetchWordFrequency_never_raises_witness:
  "fst (fetchWordFrequency timeout_env ''cat'' empty_world) =
     Inr \<lparr>frequency = None, score = None, fetched_at = ''2024-05-01T10:00:00.000Z'',
          error = Some ''timeout of 10000ms exceeded''\<rparr>"
proof -
  have rejected: "http timeout_env (tick empty_world) ''cat'' =
      Rejected (Error ''timeout of 10000ms exceeded'')"
    by (simp add: timeout_env_def quiet_env_def)
  from fetchWordFrequency_never_raises [of timeout_env "''cat''" empty_world] rejected
  have "fst (fetchWordFrequency timeout_env ''cat'' empty_world) =
      Inr \<lparr>frequency = None, score = None,
           fetched_at = clock timeout_env (tick (called empty_world)),
           error = Some (message (Error ''timeout of 10000ms exceeded''))\<rparr>"
    by simp
  then show ?thesis by (simp add: timeout_env_def quiet_env_def)
qed

text \<open>
  C10. When the first candidate of the answer has the score 0 or no score, the result's
  \<open>score\<close> is \<open>null\<close>, and the whole result is the same one in both cases: the result
  does not tell a zero score from a missing one.
\<close>

theorem fetchWordFrequency_zero_score_null:
  assumes "http e (tick w) wd = Response (Some (d # rest))"
    and "data_score d = None \<or> data_score d = Some 0"
  shows "\<exists>r. fetchWordFrequency e wd w = (Inr r, called w) \<and> score r = None \<and>
           fetchWordFrequency
             (e\<lparr>http := \<lambda>n x. Response (Some (d\<lparr>data_score := None\<rparr> # rest))\<rparr>) wd w =
             (Inr r, called w) \<and>
           fetchWordFrequency
             (e\<lparr>http := \<lambda>n x. Response (Some (d\<lparr>data_score := Some 0\<rparr> # rest))\<rparr>) wd w =
             (Inr r, called w)"
  using assms
  by (auto simp: fetchWordFrequency_def fetch_try_def score_or_null_def
           split: sum.splits option.splits)

theorem fetchWordFrequency_zero_score_null_witness:
  "\<exists>r. fetchWordFrequency zero_score_env ''cat'' empty_world = (Inr r, called empty_world) \<and>
       score r = None"
proof -
  have answer: "http zero_score_env (tick empty_world) ''cat'' =
      Response (Some (\<lparr>data_score = Some 0,
                        data_tags = Some [TagStr ''n'', TagStr ''f:12.5'']\<rparr> # []))"
    by (simp add: zero_score_env_def quiet_env_def)
  have zero: "data_score \<lparr>data_score = Some 0,
                           data_tags = Some [TagStr ''n'', TagStr ''f:12.5'']\<rparr> = None \<or>
              data_score \<lparr>data_score = Some 0,
                           data_tags = Some [TagStr ''n'', TagStr ''f:12.5'']\<rparr> = Some 0"
    by simp
  from fetchWordFrequency_zero_score_null [OF answer zero] show ?thesis by blast
qed






section \<open>The selection: \<open>queryWordsNeedingInfo\<close>\<close>

lemma length_select_rows:
  "length (select_rows limit rs) = min limit (length (filter needs_info rs))"
  by (simp add: select_rows_def min.commute)

lemma mset_select_rows: "mset (select_rows limit rs) \<subseteq># mset (filter needs_info rs)"
proof -
  let ?ys = "sort_key created_at (filter needs_info rs)"
  have "mset ?ys = mset (take limit ?ys) + mset (drop limit ?ys)"
    by (metis append_take_drop_id mset_append)
  then have "mset (take limit ?ys) \<subseteq># mset ?ys" by simp
  then show ?thesis by (simp add: select_rows_def)
qed

lemma sorted_select_rows: "sorted (map created_at (select_rows limit rs))"
proof -
  have "sorted (map created_at (sort_key created_at (filter needs_info rs)))"
    by (rule sorted_sort_key)
  then have "sorted (take limit (map created_at (sort_key created_at (filter needs_info rs))))"
    by (rule sorted_wrt_take)
  then show ?thesis by (simp add: select_rows_def take_map)
qed

text \<open>A pending row that was left out is no older than any row that was selected.\<close>

lemma select_rows_oldest:
  assumes "r \<in> set rs" and "needs_info r" and "r \<notin> set (select_rows limit rs)"
    and "s \<in> set (select_rows limit rs)"
  shows "created_at s \<le> created_at r"
proof -
  let ?ys = "sort_key created_at (filter needs_info rs)"
  have parts: "?ys = take limit ?ys @ drop limit ?ys" by simp
  from assms(1,2) have "r \<in> set ?ys" by simp
  then have "r \<in> set (take limit ?ys) \<union> set (drop limit ?ys)"
    by (metis parts set_append)
  with assms(3) have r: "r \<in> set (drop limit ?ys)" by (simp add: select_rows_def)
  from assms(4) have s: "s \<in> set (take limit ?ys)" by (simp add: select_rows_def)
  have "sorted (map created_at (take limit ?ys) @ map created_at (drop limit ?ys))"
    by (metis sorted_sort_key map_append append_take_drop_id)
  then have "\<forall>x \<in> set (map created_at (take limit ?ys)).
               \<forall>y \<in> set (map created_at (drop limit ?ys)). x \<le> y"
    unfolding sorted_append by blast
  moreover from s have "created_at s \<in> set (map created_at (take limit ?ys))" by simp
  moreover from r have "created_at r \<in> set (map created_at (drop limit ?ys))" by simp
  ultimately show ?thesis by blast
qed

text \<open>
  C7. When the SELECT does not fail, \<open>queryWordsNeedingInfo limit\<close> returns the words of
  rows of the table that have language \<open>english\<close>, source \<open>wiktionary\<close> and no info, each
  row at most as often as the table holds it, in ascending order of creation time, the
  oldest first: a pending row that is left out is no older than any returned one. It
  returns \<open>limit\<close> rows when that many are pending and all pending rows otherwise, so at
  most \<open>limit\<close> rows, and the empty sequence when no row is pending.
\<close>

theorem queryWordsNeedingInfo_oldest_pending:
  assumes "db_fault e (tick w) = None"
  shows "\<exists>rs. fst (queryWordsNeedingInfo e limit w) = Inr (map word rs) \<and>
           mset rs \<subseteq># mset (filter needs_info (store w)) \<and>
           (\<forall>r \<in> set rs. r \<in> set (store w) \<and> language r = ''english'' \<and>
                 source r = ''wiktionary'' \<and> info r = None) \<and>
           sorted (map created_at rs) \<and>
           length rs = min limit (length (filter needs_info (store w))) \<and>
           (\<forall>r \<in> set (store w). needs_info r \<and> r \<notin> set rs \<longrightarrow>
                 (\<forall>s \<in> set rs. created_at s \<le> created_at r)) \<and>
           (filter needs_info (store w) = [] \<longrightarrow> rs = [])"
proof (intro exI conjI)
  show "fst (queryWordsNeedingInfo e limit w) = Inr (map word (select_rows limit (store w)))"
    using assms by (simp add: queryWordsNeedingInfo_def)
  show "mset (select_rows limit (store w)) \<subseteq># mset (filter needs_info (store w))"
    by (rule mset_select_rows)
  show "\<forall>r \<in> set (select_rows limit (store w)). r \<in> set (store w) \<and>
          language r = ''english'' \<and> source r = ''wiktionary'' \<and> info r = None"
  proof
    fix r assume "r \<in> set (select_rows limit (store w))"
    then have "r \<in> set (filter needs_info (store w))"
      by (auto simp: select_rows_def dest: in_set_takeD)
    then show "r \<in> set (store w) \<and> language r = ''english'' \<and>
                 source r = ''wiktionary'' \<and> info r = None"
      by (simp add: needs_info_def)
  qed
  show "sorted (map created_at (select_rows limit (store w)))"
    by (rule sorted_select_rows)
  show "length (select_rows limit (store w)) = min limit (length (filter needs_info (store w)))"
    by (rule length_select_rows)
  show "\<forall>r \<in> set (store w). needs_info r \<and> r \<notin> set (select_rows limit (store w)) \<longrightarrow>
          (\<forall>s \<in> set (select_rows limit (store w)). created_at s \<le> created_at r)"
    using select_rows_oldest by blast
  show "filter needs_info (store w) = [] \<longrightarrow> select_rows limit (store w) = []"
    by (simp add: select_rows_def)
qed

theorem queryWordsNeedingInfo_oldest_pending_witness:
  "db_fault quiet_env (tick mixed_world) = None \<and>
   (\<exists>rs :: row list.
      fst (queryWordsNeedingInfo quiet_env 2 mixed_world) = Inr (map word rs) \<and>
      sorted (map created_at rs) \<and> length rs = 2 \<and>
      (\<forall>r \<in> set rs. language r = ''english'' \<and> source r = ''wiktionary'' \<and> info r = None))"
proof -
  have up: "db_fault quiet_env (tick mixed_world) = None"
    by (simp add: quiet_env_def)
  have three: "length (filter needs_info (store mixed_world)) = 3"
    by (simp add: needs_info_def mixed_world_def pending_row_def)
  from queryWordsNeedingInfo_oldest_pending [OF up, of 2]
  obtain rs where "fst (queryWordsNeedingInfo quiet_env 2 mixed_world) = Inr (map word rs)"
    and "sorted (map created_at rs)"
    and "length rs = min 2 (length (filter needs_info (store mixed_world)))"
    and "\<forall>r \<in> set rs. r \<in> set (store mixed_world) \<and> language r = ''english'' \<and>
           source r = ''wiktionary'' \<and> info r = None"
    by blast
  with three up show ?thesis by auto
qed

text \<open>On the example table the two oldest pending rows come back, oldest first.\<close>

lemma queryWordsNeedingInfo_mixed_world:
  "fst (queryWordsNeedingInfo quiet_env 2 mixed_world) = Inr [''old'', ''mid'']"
  by (simp add: queryWordsNeedingInfo_def select_rows_def needs_info_def
                quiet_env_def mixed_world_def pending_row_def)

section \<open>One batch: \<open>processWords\<close>\<close>

subsection \<open>The counters of the loop\<close>

lemma process_each_counts:
  "process_each e delayMs n ws t w = (t', w') \<Longrightarrow>
     successCount t' + errorCount t' = successCount t + errorCount t + length ws"
proof (induction ws arbitrary: t w)
  case Nil
  then show ?case by simp
next
  case (Cons wd rest)
  then show ?case
    by (auto simp: count_error_def count_success_def count_processed_def count_update_def
             split: prod.splits sum.splits if_splits)
qed

lemma process_each_processed:
  "process_each e delayMs n ws t w = (t', w') \<Longrightarrow>
     processedCount t' \<le> processedCount t + length ws"
proof (induction ws arbitrary: t w)
  case Nil
  then show ?case by simp
next
  case (Cons wd rest)
  then show ?case
    by (fastforce simp: count_error_def count_success_def count_processed_def count_update_def
                  split: prod.splits sum.splits if_splits)
qed

text \<open>
  C9. When the selection returns a non-empty list of \<open>N\<close> words, \<open>processWords\<close> returns
  a tally, and in it \<open>successCount + errorCount = N\<close>: every selected word is counted
  once, as a success or as an error.
\<close>

theorem processWords_success_plus_error:
  assumes "queryWordsNeedingInfo e batchSize w = (Inr ws, w1)" and "ws \<noteq> []"
  shows "\<exists>t w2. processWords e batchSize delayMs w = (Inr (Some t), w2) \<and>
           successCount t + errorCount t = length ws"
proof -
  obtain t w2 where run: "process_each e delayMs (length ws) ws
      \<lparr>processedCount = 0, successCount = 0, errorCount = 0\<rparr> w1 = (t, w2)"
    by (cases "process_each e delayMs (length ws) ws
      \<lparr>processedCount = 0, successCount = 0, errorCount = 0\<rparr> w1")
  from process_each_counts [OF run] have "successCount t + errorCount t = length ws"
    by simp
  moreover from assms run have "processWords e batchSize delayMs w = (Inr (Some t), w2)"
    by (simp add: processWords_def)
  ultimately show ?thesis by blast
qed

theorem processWords_success_plus_error_witness:
  "\<exists>t w2. processWords flaky_env 10 200 five_words = (Inr (Some t), w2) \<and>
          successCount t + errorCount t = 5"
proof -
  have selected: "queryWordsNeedingInfo flaky_env 10 five_words =
      (Inr [''a'', ''b'', ''c'', ''d'', ''e''], called five_words)"
    by (simp add: queryWordsNeedingInfo_def select_rows_def needs_info_def
                  flaky_env_def quiet_env_def five_words_def pending_row_def)
  have some: "[''a'', ''b'', ''c'', ''d'', ''e''] \<noteq> []" by simp
  have five: "length [''a'', ''b'', ''c'', ''d'', ''e''] = (5::nat)" by simp
  from processWords_success_plus_error [OF selected some, of 200] show ?thesis
    by (simp only: five)
qed

text \<open>
  The bound on \<open>processedCount\<close>: a tally that \<open>processWords\<close> returns never counts more
  processed words than the batch size.
\<close>

lemma processWords_processed_le_batchSize:
  assumes "processWords e batchSize delayMs w = (Inr (Some t), w')"
  shows "processedCount t \<le> batchSize"
proof -
  from assms obtain ws w1 where q: "queryWordsNeedingInfo e batchSize w = (Inr ws, w1)"
    and run: "process_each e delayMs (length ws) ws
      \<lparr>processedCount = 0, successCount = 0, errorCount = 0\<rparr> w1 = (t, w')"
    by (auto simp: processWords_def split: prod.splits sum.splits if_splits)
  from q have "length ws \<le> batchSize"
    by (auto simp: queryWordsNeedingInfo_def length_select_rows split: option.splits)
  with process_each_processed [OF run] show ?thesis by simp
qed

text \<open>Only a failure of the SELECT comes out of \<open>processWords\<close> as an exception.\<close>

lemma processWords_raises_iff:
  "fst (processWords e batchSize delayMs w) = Inl err \<longleftrightarrow> db_fault e (tick w) = Some err"
  by (auto simp: processWords_def queryWordsNeedingInfo_def split: option.splits prod.splits)

subsection \<open>A word the service does not know\<close>

text \<open>
  C5. When the service's answer holds no candidate (no data, or an empty array), the
  lookup returns \<open>frequency = null\<close>, \<open>score = null\<close> and the error
  \<open>Word not found in Datamuse database\<close>. The loop passes that result to
  \<open>updateWordInfo\<close>: when the UPDATE does not fail and changes a row, the rest of the batch
  runs on a table in which the result is the info of the word's rows, with one more
  success, one more processed word and the same number of errors.
\<close>

theorem not_found_is_written_and_counted:
  assumes "http e (tick w) wd = Response None \<or> http e (tick w) wd = Response (Some [])"
    and "db_fault e (tick (called w)) = None"
    and "\<exists>r \<in> set (store w). is_row_of wd r"
  shows "let nf = \<lparr>frequency = None, score = None, fetched_at = clock e (tick (called w)),
                    error = Some ''Word not found in Datamuse database''\<rparr>
         in fst (fetchWordFrequency e wd w) = Inr nf \<and>
            (\<exists>w'. process_each e delayMs n (wd # rest) t w =
                     process_each e delayMs n rest
                       (t\<lparr>successCount := successCount t + 1,
                          processedCount := processedCount t + 1\<rparr>) w' \<and>
                   store w' = set_info wd nf (store w))"
proof -
  let ?nf = "\<lparr>frequency = None, score = None, fetched_at = clock e (tick (called w)),
              error = Some ''Word not found in Datamuse database''\<rparr>"
  let ?w2 = "called ((called w)\<lparr>store := set_info wd ?nf (store w)\<rparr>)"
  let ?w3 = "if processedCount t + 1 < n then sleep delayMs ?w2 else ?w2"
  from assms(1) have f: "fetchWordFrequency e wd w = (Inr ?nf, called w)"
    by (auto simp: fetchWordFrequency_def fetch_try_def)
  from assms(3) have "filter (is_row_of wd) (store w) \<noteq> []"
    by (auto simp: filter_empty_conv)
  with assms(2) have u: "updateWordInfo e wd ?nf (called w) = (Inr True, ?w2)"
    by (simp add: updateWordInfo_def called_def)
  have step: "process_each e delayMs n (wd # rest) t w =
          process_each e delayMs n rest
            (t\<lparr>successCount := successCount t + 1, processedCount := processedCount t + 1\<rparr>) ?w3"
    by (simp add: f u count_update_def count_success_def count_processed_def rate_limit_def)
  have kept: "store ?w3 = set_info wd ?nf (store w)"
    by (simp add: called_def sleep_def)
  from f have "fst (fetchWordFrequency e wd w) = Inr ?nf" by simp
  moreover from step kept have "\<exists>w'. process_each e delayMs n (wd # rest) t w =
                     process_each e delayMs n rest
                       (t\<lparr>successCount := successCount t + 1,
                          processedCount := processedCount t + 1\<rparr>) w' \<and>
                   store w' = set_info wd ?nf (store w)"
    by (rule_tac x = ?w3 in exI) (rule conjI)
  ultimately show ?thesis unfolding Let_def by (rule conjI)
qed

theorem not_found_is_written_and_counted_witness:
  "\<exists>w'. process_each quiet_env 200 1 [''cat'']
           \<lparr>processedCount = 0, successCount = 0, errorCount = 0\<rparr> one_word =
           (\<lparr>processedCount = 1, successCount = 1, errorCount = 0\<rparr>, w') \<and>
        map info (store w') =
          [Some \<lparr>frequency = None, score = None, fetched_at = ''2024-05-01T10:00:00.000Z'',
                 error = Some ''Word not found in Datamuse database''\<rparr>]"
proof -
  let ?t0 = "\<lparr>processedCount = 0, successCount = 0, errorCount = 0\<rparr>"
  let ?nf = "\<lparr>frequency = None, score = None,
              fetched_at = clock quiet_env (tick (called one_word)),
              error = Some ''Word not found in Datamuse database''\<rparr>"
  have unknown: "http quiet_env (tick one_word) ''cat'' = Response None \<or>
      http quiet_env (tick one_word) ''cat'' = Response (Some [])"
    by (simp add: quiet_env_def)
  have up: "db_fault quiet_env (tick (called one_word)) = None"
    by (simp add: quiet_env_def)
  have present: "\<exists>r \<in> set (store one_word). is_row_of ''cat'' r"
    by (simp add: one_word_def pending_row_def is_row_of_def)
  from not_found_is_written_and_counted [OF unknown up present,
      where delayMs = 200 and n = 1 and rest = "[]" and t = ?t0]
  have "\<exists>w'. process_each quiet_env 200 1 [''cat''] ?t0 one_word =
        process_each quiet_env 200 1 []
          (?t0\<lparr>successCount := successCount ?t0 + 1,
               processedCount := processedCount ?t0 + 1\<rparr>) w' \<and>
        store w' = set_info ''cat'' ?nf (store one_word)"
    unfolding Let_def by (rule conjunct2)
  then obtain w' where both: "process_each quiet_env 200 1 [''cat''] ?t0 one_word =
        process_each quiet_env 200 1 []
          (?t0\<lparr>successCount := successCount ?t0 + 1,
               processedCount := processedCount ?t0 + 1\<rparr>) w' \<and>
        store w' = set_info ''cat'' ?nf (store one_word)" ..
  from both have counted: "process_each quiet_env 200 1 [''cat''] ?t0 one_word =
      (\<lparr>processedCount = 1, successCount = 1, errorCount = 0\<rparr>, w')"
    by (simp del: process_each.simps(2))
  from both have written: "map info (store w') =
      [Some \<lparr>frequency = None, score = None, fetched_at = ''2024-05-01T10:00:00.000Z'',
             error = Some ''Word not found in Datamuse database''\<rparr>]"
    by (simp add: set_info_def is_row_of_def one_word_def pending_row_def quiet_env_def)
  show ?thesis
  proof (intro exI conjI)
    show "process_each quiet_env 200 1 [''cat''] ?t0 one_word =
      (\<lparr>processedCount = 1, successCount = 1, errorCount = 0\<rparr>, w')" by (rule counted)
    show "map info (store w') =
      [Some \<lparr>frequency = None, score = None, fetched_at = ''2024-05-01T10:00:00.000Z'',
             error = Some ''Word not found in Datamuse database''\<rparr>]" by (rule written)
  qed
qed

subsection \<open>No word selected\<close>

lemma processWords_nothing_pending:
  assumes "db_fault e (tick w) = None" and "filter needs_info (store w) = []"
  shows "processWords e batchSize delayMs w = (Inr None, called w)"
  using assms by (simp add: processWords_def queryWordsNeedingInfo_def select_rows_def)

lemma processWords_zero_batch:
  assumes "db_fault e (tick w) = None"
  shows "processWords e 0 delayMs w = (Inr None, called w)"
  using assms by (simp add: processWords_def queryWordsNeedingInfo_def select_rows_def)

text \<open>
  C2 says that with no pending word \<open>processWords\<close> returns the tally
  \<open>{processed: 0, success: 0, error: 0}\<close>. The code runs \<open>return;\<close> there: on an empty
  table, for every batch size and delay, the value is \<open>undefined\<close> and not a tally.
\<close>

theorem processWords_empty_selection_undefined:
  "fst (processWords quiet_env batchSize delayMs empty_world) = Inr None"
  by (simp add: processWords_nothing_pending quiet_env_def empty_world_def)

text \<open>
  C6 says that the result of \<open>processWords\<close> has \<open>processed \<le> B\<close> for every batch size
  \<open>B \<ge> 0\<close>. With \<open>B = 0\<close> the SELECT has LIMIT 0 and returns no row, also on a table with
  pending rows, and the value is \<open>undefined\<close>: there is no \<open>processedCount\<close> to read. For
  every tally that is returned the bound holds (\<open>processWords_processed_le_batchSize\<close>).
\<close>

theorem processWords_zero_batch_undefined:
  "fst (processWords quiet_env 0 delayMs five_words) = Inr None"
  by (simp add: processWords_zero_batch quiet_env_def)

subsection \<open>An UPDATE that raises\<close>

text \<open>
  When \<open>updateWordInfo\<close> raises, the \<open>catch\<close> of the loop body counts an error and the loop
  goes on with the next word; \<open>processedCount++\<close> is in the \<open>try\<close> block, after the call,
  and is skipped, as is the delay.
\<close>

lemma process_each_update_raises:
  assumes "fetchWordFrequency e wd w = (Inr i, w1)" and "db_fault e (tick w1) = Some err"
  shows "process_each e delayMs n (wd # rest) t w =
           process_each e delayMs n rest (t\<lparr>errorCount := errorCount t + 1\<rparr>) (called w1)"
  using assms by (simp add: updateWordInfo_def count_error_def)

text \<open>When it returns \<open>false\<close>, the word counts as an error and as processed.\<close>

lemma process_each_update_false:
  assumes "fetchWordFrequency e wd w = (Inr i, w1)" and "updateWordInfo e wd i w1 = (Inr False, w2)"
  shows "process_each e delayMs n (wd # rest) t w =
           process_each e delayMs n rest
             (t\<lparr>errorCount := errorCount t + 1, processedCount := processedCount t + 1\<rparr>)
             (rate_limit delayMs n (count_update False t) w2)"
  using assms by (simp add: count_update_def count_error_def count_processed_def)

text \<open>
  C3 says that a batch of 5 words in which one UPDATE raises returns
  \<open>{processed: 5, success: 4, error: 1}\<close>. The batch completes and no exception escapes,
  and the word is counted as an error, but it is not counted as processed: with the
  UPDATE of the third of five words failing, the tally is
  \<open>{processed: 4, success: 4, error: 1}\<close>.
\<close>

theorem processWords_update_raises_not_processed:
  "fst (processWords flaky_env 10 200 five_words) =
     Inr (Some \<lparr>processedCount = 4, successCount = 4, errorCount = 1\<rparr>)"
  by (simp add: processWords_def queryWordsNeedingInfo_def select_rows_def needs_info_def
                fetchWordFrequency_def fetch_try_def updateWordInfo_def is_row_of_def
                set_info_def count_update_def count_error_def count_success_def
                count_processed_def rate_limit_def called_def sleep_def
                flaky_env_def quiet_env_def five_words_def pending_row_def)

section \<open>All batches: \<open>processAllWords\<close>\<close>

text \<open>
  With a database that does not fail, a table without pending rows keeps the loop
  turning: every turn gets \<open>undefined\<close> from \<open>processWords\<close>, fails on
  \<open>result.processedCount\<close>, waits and tries again. No amount of fuel reaches a \<open>break\<close>.
\<close>

lemma run_batches_nothing_pending:
  assumes "\<forall>n. db_fault e n = None" and "filter needs_info (store w) = []"
  shows "run_batches fuel e batchSize delayMs batchDelayMs tot w = None"
  using assms(2)
proof (induction fuel arbitrary: tot w)
  case 0
  then show ?case by simp
next
  case (Suc fuel)
  from assms(1) Suc.prems have "processWords e batchSize delayMs w = (Inr None, called w)"
    by (simp add: processWords_nothing_pending)
  moreover have "filter needs_info (store (sleep batchDelayMs (called w))) = []"
    using Suc.prems by (simp add: sleep_def called_def)
  ultimately show ?case using Suc.IH by simp
qed

lemma quiet_env_db_up: "\<forall>n. db_fault quiet_env n = None"
  by (simp add: quiet_env_def)

lemma one_word_batch:
  "processWords quiet_env 1 200 one_word =
     (Inr (Some \<lparr>processedCount = 1, successCount = 1, errorCount = 0\<rparr>),
      \<lparr>store = [(pending_row ''cat'' 1)
                  \<lparr>info := Some \<lparr>frequency = None, score = None,
                                 fetched_at = ''2024-05-01T10:00:00.000Z'',
                                 error = Some ''Word not found in Datamuse database''\<rparr>\<rparr>],
        tick = 3, waited = 0\<rparr>)"
  by (simp add: processWords_def queryWordsNeedingInfo_def select_rows_def needs_info_def
                fetchWordFrequency_def fetch_try_def updateWordInfo_def is_row_of_def
                set_info_def count_update_def count_error_def count_success_def
                count_processed_def rate_limit_def called_def sleep_def
                quiet_env_def one_word_def pending_row_def)

text \<open>
  C1 says that \<open>processAllWords\<close> terminates whenever finitely many rows are pending. It
  does not when the last selection is empty. On an empty table the loop never reaches a
  \<open>break\<close>, whatever the batch size and the delays. With one pending word and batch size
  1 the first batch processes the word, is as large as the batch size and so does not
  end the loop, and every later turn finds nothing pending.
\<close>

theorem processAllWords_never_returns:
  "processAllWords fuel quiet_env batchSize delayMs batchDelayMs empty_world = None \<and>
   processAllWords fuel quiet_env 1 200 5000 one_word = None"
proof (rule conjI)
  have "filter needs_info (store empty_world) = []" by (simp add: empty_world_def)
  with quiet_env_db_up
  show "processAllWords fuel quiet_env batchSize delayMs batchDelayMs empty_world = None"
    unfolding processAllWords_def by (rule run_batches_nothing_pending)
next
  define w' where "w' = snd (processWords quiet_env 1 200 one_word)"
  have first: "processWords quiet_env (Suc 0) 200 one_word =
      (Inr (Some \<lparr>processedCount = 1, successCount = 1, errorCount = 0\<rparr>), w')"
    using one_word_batch by (simp add: w'_def)
  have "filter needs_info (store w') = []"
    unfolding w'_def using one_word_batch by (simp add: needs_info_def pending_row_def)
  then have "filter needs_info (store (sleep 5000 w')) = []"
    by (simp add: sleep_def)
  with quiet_env_db_up
  have rest: "\<And>k b tot. run_batches k quiet_env b 200 5000 tot (sleep 5000 w') = None"
    by (rule run_batches_nothing_pending)
  show "processAllWords fuel quiet_env 1 200 5000 one_word = None"
    by (cases fuel) (simp_all add: processAllWords_def first rest)
qed

text \<open>
  The loop does reach a \<open>break\<close> when a batch counts fewer processed words than the batch
  size: here after one batch of five words, with the word whose UPDATE failed still
  pending.
\<close>

lemma processAllWords_short_batch_returns:
  "map_option fst (processAllWords 1 flaky_env 10 200 5000 five_words) =
     Some \<lparr>totalProcessed = 4, totalSuccess = 4, totalErrors = 1, batchNumber = 2\<rparr> \<and>
   map_option (map word \<circ> filter needs_info \<circ> store \<circ> snd)
     (processAllWords 1 flaky_env 10 200 5000 five_words) = Some [''c'']"
  by (simp add: processAllWords_def add_batch_def
                processWords_def queryWordsNeedingInfo_def select_rows_def needs_info_def
                fetchWordFrequency_def fetch_try_def updateWordInfo_def is_row_of_def
                set_info_def count_update_def count_error_def count_success_def
                count_processed_def rate_limit_def called_def sleep_def
                flaky_env_def quiet_env_def five_words_def pending_row_def)

end
